theory Spec2Isabelle
  imports Complex_Main
begin

section \<open>Crop classification model (api/classify)\<close>

text \<open>
  The JavaScript numbers of the source are modelled as real numbers: every constant of
  the source (0.8, 0.85, 0.1, ...) is the decimal fraction it is written as, and
  \<open>+\<close>, \<open>*\<close>, \<open>>\<close>, \<open>>=\<close> are the exact operations. Strings are lists of
  code units; the accented letters of the source's French literals are written with their
  code (\<open>CHR 0xE9\<close> is e-acute, \<open>CHR 0xE8\<close> e-grave, \<open>CHR 0xE0\<close> a-grave,
  \<open>CHR 0xEA\<close> e-circumflex).
\<close>

subsection \<open>Math.random\<close>

text \<open>
  \<open>Math.random()\<close> is a stateful generator. Its state is a sequence of draws together
  with the position of the next draw; a call returns the draw at that position and moves
  on by one. What the generator promises (each draw lies in \<open>[0, 1)\<close>) is the predicate
  \<open>unit_draws\<close>.
\<close>

type_synonym rng = "(nat \<Rightarrow> real) \<times> nat"

definition Math_random :: "rng \<Rightarrow> real \<times> rng" where
  "Math_random s = (fst s (snd s), (fst s, Suc (snd s)))"

definition unit_draws :: "rng \<Rightarrow> bool" where
  "unit_draws s \<longleftrightarrow> (\<forall>i. 0 \<le> fst s i \<and> fst s i < 1)"

subsection \<open>Number.prototype.toFixed(3) followed by parseFloat\<close>

text \<open>
  \<open>x.toFixed(3)\<close> writes the sign, then the integer \<open>n\<close> for which \<open>n / 1000\<close> is
  closest to \<open>|x|\<close> (the larger \<open>n\<close> on a tie) with three decimals; \<open>parseFloat\<close>
  reads the number back.
\<close>

definition toFixed3 :: "real \<Rightarrow> real" where
  "toFixed3 x =
     (if x < 0 then - (of_int \<lfloor>(- x) * 1000 + 1 / 2\<rfloor> / 1000)
      else of_int \<lfloor>x * 1000 + 1 / 2\<rfloor> / 1000)"

subsection \<open>Data\<close>

record features =
  ndvi :: real
  evi :: real
  savi :: real
  mean_red :: real
  mean_nir :: real
  std_red :: real
  std_nir :: real
  area_ha :: real

record confidence_tier =
  level :: nat
  threshold :: real
  label :: string
  action :: string

definition Palmier_a_huile :: string where
  "Palmier_a_huile = ''Palmier '' @ [CHR 0xE0] @ '' huile''"

definition Cacao :: string where
  "Cacao = ''Cacao''"

definition Foret :: string where
  "Foret = ''For'' @ [CHR 0xEA] @ ''t''"

definition classes :: "string list" where
  "classes = [Palmier_a_huile, Cacao, Foret]"

definition confidenceLevels :: "confidence_tier list" where
  "confidenceLevels =
     [\<lparr>level = 5, threshold = 0.8,
        label = ''Tr'' @ [CHR 0xE8] @ ''s haute confiance'',
        action = ''Utilisation automatique recommand'' @ [CHR 0xE9] @ ''e''\<rparr>,
      \<lparr>level = 4, threshold = 0.6,
        label = ''Confiance '' @ [CHR 0xE9] @ ''lev'' @ [CHR 0xE9] @ ''e'',
        action = ''Cartographie automatique avec v'' @ [CHR 0xE9] @ ''rifications''\<rparr>,
      \<lparr>level = 3, threshold = 0.4,
        label = ''Confiance moyenne'',
        action = ''V'' @ [CHR 0xE9] @ ''rification visuelle recommand'' @ [CHR 0xE9] @ ''e''\<rparr>,
      \<lparr>level = 2, threshold = 0.2,
        label = ''Faible confiance'',
        action = ''V'' @ [CHR 0xE9] @ ''rification sur le terrain n'' @ [CHR 0xE9] @ ''cessaire''\<rparr>,
      \<lparr>level = 1, threshold = 0.0,
        label = ''Tr'' @ [CHR 0xE8] @ ''s faible confiance'',
        action = ''Analyse approfondie requise''\<rparr>]"

record prediction =
  predicted_class :: string
  confidence :: real
  confidence_level :: nat
  confidence_label :: string
  recommended_action :: string
  probabilities :: "(string \<times> real) list"

subsection \<open>The confidence tier of a confidence\<close>

text \<open>
  The expression of \<open>predict\<close> that resolves the tier:
  \<open>this.confidenceLevels.find(level => confidence >= level.threshold)
     || this.confidenceLevels[this.confidenceLevels.length - 1]\<close>.
  \<open>find\<close> returns the first element that satisfies the test, or \<open>undefined\<close>, in
  which case \<open>||\<close> takes the last tier of the table.
\<close>

definition confidenceLevel_of :: "real \<Rightarrow> confidence_tier" where
  "confidenceLevel_of c =
     (case find (\<lambda>l. c \<ge> threshold l) confidenceLevels of
        Some l \<Rightarrow> l
      | None \<Rightarrow> confidenceLevels ! (length confidenceLevels - 1))"

subsection \<open>calculateNDVI, extractFeatures, predict\<close>

definition calculateNDVI :: "rng \<Rightarrow> real \<times> rng" where
  "calculateNDVI s = (let (r, s1) = Math_random s in (0.65 + r * 0.3, s1))"

definition extractFeatures :: "rng \<Rightarrow> features \<times> rng" where
  "extractFeatures s0 =
     (let (n, s1) = calculateNDVI s0;
          (r1, s2) = Math_random s1;
          (r2, s3) = Math_random s2;
          (r3, s4) = Math_random s3;
          (r4, s5) = Math_random s4;
          (r5, s6) = Math_random s5
      in (\<lparr>ndvi = toFixed3 n,
            evi = toFixed3 (n * 1.2),
            savi = toFixed3 (n * 0.9),
            mean_red = r1 * 0.3 + 0.1,
            mean_nir = r2 * 0.4 + 0.6,
            std_red = r3 * 0.05 + 0.02,
            std_nir = r4 * 0.08 + 0.03,
            area_ha = r5 * 5 + 0.5\<rparr>, s6))"

text \<open>
  The \<open>if / else if / else\<close> of \<open>predict\<close> that chooses the class and draws the
  confidence, with the generator after the draw. Each of the five branches calls
  \<open>Math.random()\<close> exactly once and nothing is drawn before, so the draw is bound first.
\<close>

definition predict_branch :: "features \<Rightarrow> rng \<Rightarrow> string \<times> real \<times> rng" where
  "predict_branch f s =
     (let (r, s1) = Math_random s in
      if ndvi f > 0.8 then
        (if evi f > 0.9 then (Foret, 0.85 + r * 0.1, s1)
         else (Palmier_a_huile, 0.75 + r * 0.15, s1))
      else if ndvi f > 0.6 then
        (if savi f > 0.7 then (Palmier_a_huile, 0.70 + r * 0.2, s1)
         else (Cacao, 0.65 + r * 0.25, s1))
      else (Cacao, 0.45 + r * 0.3, s1))"

text \<open>
  One entry of the \<open>probabilities\<close> object:
  \<open>predictedClass === k ? confidence : Math.random() * (1 - confidence)\<close>.
  The generator is only called for a class that was not predicted.
\<close>

definition probability_entry :: "string \<Rightarrow> string \<Rightarrow> real \<Rightarrow> rng \<Rightarrow> real \<times> rng" where
  "probability_entry k predictedClass c s =
     (if predictedClass = k then (c, s)
      else (let (r, s1) = Math_random s in (r * (1 - c), s1)))"

definition predict :: "features \<Rightarrow> rng \<Rightarrow> prediction \<times> rng" where
  "predict f s0 =
     (let (predictedClass, c, s1) = predict_branch f s0;
          confidenceLevel = confidenceLevel_of c;
          (pP, s2) = probability_entry Palmier_a_huile predictedClass c s1;
          (pC, s3) = probability_entry Cacao predictedClass c s2;
          (pF, s4) = probability_entry Foret predictedClass c s3
      in (\<lparr>predicted_class = predictedClass,
            confidence = toFixed3 c,
            confidence_level = level confidenceLevel,
            confidence_label = label confidenceLevel,
            recommended_action = action confidenceLevel,
            probabilities = [(Palmier_a_huile, pP), (Cacao, pC), (Foret, pF)]\<rparr>, s4))"

subsection \<open>classify\<close>

record metadata =
  model_version :: string
  processing_time :: real
  timestamp :: string

record latlng =
  lat :: "real option"
  lng :: "real option"

text \<open>
  The result object. \<open>classify\<close> builds it without \<open>coordinates\<close>; the request
  handler sets \<open>result.coordinates\<close> when the request carries them, so the field is
  optional (\<open>None\<close> is the absent property), and so are \<open>lat\<close> and \<open>lng\<close> inside it.
\<close>

record classification_result =
  features :: features
  prediction :: prediction
  metadata :: metadata
  coordinates :: "latlng option"

text \<open>
  \<open>classify\<close> throws inside its own \<open>try\<close> when the file does not exist and returns
  \<open>{success: false, error: message}\<close>, here \<open>Inl message\<close>. The file system
  (\<open>fs.existsSync\<close>) and the clock (\<open>new Date().toISOString()\<close>) are parameters.
\<close>

definition classify ::
  "(string \<Rightarrow> bool) \<Rightarrow> string \<Rightarrow> string \<Rightarrow> rng \<Rightarrow> (string + classification_result) \<times> rng" where
  "classify existsSync now imagePath s0 =
     (if \<not> existsSync imagePath then (Inl (''Fichier image non trouv'' @ [CHR 0xE9]), s0)
      else
        (let (f, s1) = extractFeatures s0;
             (p, s2) = predict f s1;
             (r, s3) = Math_random s2
         in (Inr \<lparr>features = f, prediction = p,
                   metadata = \<lparr>model_version = ''1.0.0'', processing_time = r * 2 + 1,
                                timestamp = now\<rparr>,
                   coordinates = None\<rparr>, s3)))"

section \<open>Export of classification results (api/export)\<close>

subsection \<open>JavaScript values\<close>

text \<open>
  The values the export code builds: numbers, strings, arrays and object literals (an
  object is the list of its properties in the order they are written).
\<close>

datatype json = JNum real | JStr string | JArr "json list" | JObj "(string \<times> json) list"

text \<open>
  \<open>Array.prototype.join\<close> on strings, and \<open>String(v)\<close> as \<open>join\<close> applies it to
  the elements of a row. How JavaScript prints a number is the language's, not this
  repository's: it is the parameter \<open>num_str\<close>. An array prints as its elements joined
  by commas and an object literal as \<open>[object Object]\<close>.
\<close>

fun join :: "string \<Rightarrow> string list \<Rightarrow> string" where
  "join sep [] = []"
| "join sep [x] = x"
| "join sep (x # y # ys) = x @ sep @ join sep (y # ys)"

fun to_string :: "(real \<Rightarrow> string) \<Rightarrow> json \<Rightarrow> string" where
  "to_string num_str (JNum x) = num_str x"
| "to_string num_str (JStr s) = s"
| "to_string num_str (JArr xs) = join '','' (map (to_string num_str) xs)"
| "to_string num_str (JObj kvs) = ''[object Object]''"

text \<open>
  \<open>result.coordinates?.lat\<close> and \<open>result.coordinates?.lng\<close>: \<open>undefined\<close>
  (\<open>None\<close>) when there are no coordinates or the property is absent.
\<close>

definition coord_lat :: "classification_result \<Rightarrow> real option" where
  "coord_lat r = (case coordinates r of None \<Rightarrow> None | Some c \<Rightarrow> lat c)"

definition coord_lng :: "classification_result \<Rightarrow> real option" where
  "coord_lng r = (case coordinates r of None \<Rightarrow> None | Some c \<Rightarrow> lng c)"

text \<open>
  \<open>v || d\<close> for an optional number \<open>v\<close>: the default \<open>d\<close> when \<open>v\<close> is falsy, which
  for a number means \<open>undefined\<close> or \<open>0\<close>.
\<close>

definition or_default :: "real option \<Rightarrow> json \<Rightarrow> json" where
  "or_default v d = (case v of None \<Rightarrow> d | Some x \<Rightarrow> if x = 0 then d else JNum x)"

subsection \<open>generateCSV\<close>

definition headers :: "string list" where
  "headers = [''ID'', ''Culture_Predite'', ''Confiance'', ''Niveau_Confiance'',
     ''Action_Recommandee'', ''NDVI'', ''EVI'', ''SAVI'', ''Surface_Ha'', ''Latitude'',
     ''Longitude'', ''Timestamp'']"

text \<open>The array \<open>row\<close> of the loop body; \<open>CHR 0x22\<close> is the double quote.\<close>

definition csv_row :: "nat \<Rightarrow> classification_result \<Rightarrow> json list" where
  "csv_row index result =
     [JNum (of_nat (index + 1)),
      JStr ([CHR 0x22] @ predicted_class (prediction result) @ [CHR 0x22]),
      JNum (confidence (prediction result)),
      JNum (of_nat (confidence_level (prediction result))),
      JStr ([CHR 0x22] @ recommended_action (prediction result) @ [CHR 0x22]),
      JNum (ndvi (features result)),
      JNum (evi (features result)),
      JNum (savi (features result)),
      JNum (area_ha (features result)),
      or_default (coord_lat result) (JStr []),
      or_default (coord_lng result) (JStr []),
      JStr (timestamp (metadata result))]"

text \<open>
  \<open>csv\<close> starts as the header line and \<open>forEach\<close> appends one line per result, with
  the index of the result; \<open>CHR 0x0A\<close> is the newline.
\<close>

definition generateCSV :: "(real \<Rightarrow> string) \<Rightarrow> classification_result list \<Rightarrow> string" where
  "generateCSV num_str results =
     foldl (\<lambda>csv (index, result).
              csv @ join '','' (map (to_string num_str) (csv_row index result)) @ [CHR 0x0A])
           (join '','' headers @ [CHR 0x0A])
           (enumerate 0 results)"

subsection \<open>generateGeoJSON\<close>

definition geo_feature :: "nat \<Rightarrow> classification_result \<Rightarrow> json" where
  "geo_feature index result =
     JObj [(''type'', JStr ''Feature''),
           (''properties'', JObj
              [(''id'', JNum (of_nat (index + 1))),
               (''culture_predite'', JStr (predicted_class (prediction result))),
               (''confiance'', JNum (confidence (prediction result))),
               (''niveau_confiance'', JNum (of_nat (confidence_level (prediction result)))),
               (''action_recommandee'', JStr (recommended_action (prediction result))),
               (''ndvi'', JNum (ndvi (features result))),
               (''evi'', JNum (evi (features result))),
               (''savi'', JNum (savi (features result))),
               (''surface_ha'', JNum (area_ha (features result))),
               (''timestamp'', JStr (timestamp (metadata result)))]),
           (''geometry'', JObj
              [(''type'', JStr ''Point''),
               (''coordinates'', JArr [or_default (coord_lng result) (JNum 0),
                                       or_default (coord_lat result) (JNum 0)])])]"

definition generateGeoJSON :: "classification_result list \<Rightarrow> json" where
  "generateGeoJSON results =
     JObj [(''type'', JStr ''FeatureCollection''),
           (''features'', JArr (map (\<lambda>(index, result). geo_feature index result)
                                    (enumerate 0 results)))]"

subsection \<open>Entries of a request and reads that throw\<close>

text \<open>
  The export handler receives the result list from the request body, and nothing
  checks its entries. An entry is an object whose \<open>prediction\<close>, \<open>features\<close>,
  \<open>metadata\<close> and \<open>coordinates\<close> may each be absent (\<open>None\<close>, the value
  \<open>undefined\<close>); a part that is present carries its fields. Reading a field of an
  absent part, as in \<open>result.prediction.predicted_class\<close>, throws a \<open>TypeError\<close>;
  the error names the field that was read.
\<close>

datatype js_error = TypeError string

record export_entry =
  entry_prediction :: "prediction option"
  entry_features :: "features option"
  entry_metadata :: "metadata option"
  entry_coordinates :: "latlng option"

definition read_prediction :: "string \<Rightarrow> export_entry \<Rightarrow> js_error + prediction" where
  "read_prediction field result =
     (case entry_prediction result of None \<Rightarrow> Inl (TypeError field) | Some p \<Rightarrow> Inr p)"

definition read_features :: "string \<Rightarrow> export_entry \<Rightarrow> js_error + features" where
  "read_features field result =
     (case entry_features result of None \<Rightarrow> Inl (TypeError field) | Some f \<Rightarrow> Inr f)"

definition read_metadata :: "string \<Rightarrow> export_entry \<Rightarrow> js_error + metadata" where
  "read_metadata field result =
     (case entry_metadata result of None \<Rightarrow> Inl (TypeError field) | Some m \<Rightarrow> Inr m)"

text \<open>A loop over a list whose body may throw: the first throw ends it.\<close>

fun map_err :: "('a \<Rightarrow> 'e + 'b) \<Rightarrow> 'a list \<Rightarrow> 'e + 'b list" where
  "map_err f [] = Inr []"
| "map_err f (x # xs) =
     (case f x of
        Inl e \<Rightarrow> Inl e
      | Inr y \<Rightarrow> (case map_err f xs of Inl e \<Rightarrow> Inl e | Inr ys \<Rightarrow> Inr (y # ys)))"

text \<open>
  The reads the loop bodies of \<open>generateCSV\<close> and \<open>generateGeoJSON\<close> make on one
  entry, in the order both make them: first \<open>result.prediction.predicted_class\<close>, later
  \<open>result.features.ndvi\<close>, last \<open>result.metadata.timestamp\<close> (the other fields of a
  part are read after its first one; \<open>result.coordinates?.lat\<close> never throws). Both
  functions only build their value, so a throw at some entry discards what was built for
  the entries before it: the reads of all entries are made first, and
  \<open>generateCSV\<close> and \<open>generateGeoJSON\<close> above are the functions on the result objects
  so read.
\<close>

definition read_entry :: "export_entry \<Rightarrow> js_error + classification_result" where
  "read_entry result =
     (case read_prediction ''predicted_class'' result of
        Inl e \<Rightarrow> Inl e
      | Inr p \<Rightarrow>
          (case read_features ''ndvi'' result of
             Inl e \<Rightarrow> Inl e
           | Inr f \<Rightarrow>
               (case read_metadata ''timestamp'' result of
                  Inl e \<Rightarrow> Inl e
                | Inr m \<Rightarrow>
                    Inr \<lparr>features = f, prediction = p, metadata = m,
                         coordinates = entry_coordinates result\<rparr>)))"

subsection \<open>generatePDFReport\<close>






subsection \<open>The request handler\<close>

text \<open>
  The request: its method and its body. The body is \<open>None\<close> when \<open>req.body\<close> is
  \<open>undefined\<close>, and then \<open>const { format, results } = req.body\<close> throws. In a body,
  \<open>format\<close> is \<open>None\<close> when the body has none, and \<open>results\<close> is \<open>None\<close> when
  the body has none or has a value that is not an array.
\<close>

record export_body =
  format :: "string option"
  results :: "export_entry list option"









section \<open>Inputs used in the examples\<close>

text \<open>A generator whose every draw is \<open>r\<close>, at its first position.\<close>

definition constant_draws :: "real \<Rightarrow> rng" where
  "constant_draws r = (\<lambda>_. r, 0)"

text \<open>A feature vector with the three vegetation indices given and the other fields fixed.\<close>

definition vegetation :: "real \<Rightarrow> real \<Rightarrow> real \<Rightarrow> features" where
  "vegetation n e v =
     \<lparr>ndvi = n, evi = e, savi = v, mean_red = 0.2, mean_nir = 0.7, std_red = 0.03,
      std_nir = 0.05, area_ha = 2\<rparr>"

text \<open>
  A result object as the export handler receives it: the given time stamp and
  coordinates, the vector with \<open>ndvi = 0.85\<close>, \<open>evi = 0.95\<close>, \<open>savi = 0.8\<close> and the
  prediction \<open>predict\<close> returns for it when every draw is 0.5.
\<close>

definition sample_result :: "string \<Rightarrow> latlng option \<Rightarrow> classification_result" where
  "sample_result ts c =
     \<lparr>features = vegetation 0.85 0.95 0.8,
      prediction = fst (predict (vegetation 0.85 0.95 0.8) (constant_draws 0.5)),
      metadata = \<lparr>model_version = ''1.0.0'', processing_time = 2, timestamp = ts\<rparr>,
      coordinates = c\<rparr>"

text \<open>
  The entry of a request that carries the parts of a result object, and an entry as the
  repository's own client posts it (\<open>formatClassificationResult\<close>): an object with
  \<open>features\<close> and \<open>coordinates\<close> but no \<open>prediction\<close> and no \<open>metadata\<close>.
\<close>

definition entry_of :: "classification_result \<Rightarrow> export_entry" where
  "entry_of r =
     \<lparr>entry_prediction = Some (prediction r), entry_features = Some (features r),
      entry_metadata = Some (metadata r), entry_coordinates = coordinates r\<rparr>"


section \<open>The declared domain of a feature vector\<close>

text \<open>
  The domain the specification declares for a feature vector (the three indices in
  \<open>[-1, 1]\<close>, means and deviations not negative, a positive area). It is written from
  the specification: the source has no check of it.
\<close>

definition spec_feature_domain :: "features \<Rightarrow> bool" where
  "spec_feature_domain f \<longleftrightarrow>
     - 1 \<le> ndvi f \<and> ndvi f \<le> 1 \<and> - 1 \<le> evi f \<and> evi f \<le> 1 \<and> - 1 \<le> savi f \<and> savi f \<le> 1
     \<and> 0 \<le> mean_red f \<and> 0 \<le> mean_nir f \<and> 0 \<le> std_red f \<and> 0 \<le> std_nir f
     \<and> 0 < area_ha f"

section \<open>Properties of the classification model\<close>

subsection \<open>Auxiliary facts\<close>

lemma unit_draws_constant: "0 \<le> r \<Longrightarrow> r < 1 \<Longrightarrow> unit_draws (constant_draws r)"
  by (simp add: unit_draws_def constant_draws_def)

lemma toFixed3_bounds:
  assumes "0 \<le> x" "of_int a / 1000 \<le> x" "x \<le> of_int b / 1000"
  shows "of_int a / 1000 \<le> toFixed3 x" "toFixed3 x \<le> of_int b / 1000"
proof -
  have "of_int a \<le> x * 1000 + 1 / 2" using assms(2) by (simp add: field_simps)
  then have 1: "a \<le> \<lfloor>x * 1000 + 1 / 2\<rfloor>" by (simp add: le_floor_iff)
  have "x * 1000 + 1 / 2 < of_int (b + 1)" using assms(3) by (simp add: field_simps)
  then have "\<lfloor>x * 1000 + 1 / 2\<rfloor> < b + 1" by (simp only: floor_less_iff)
  then have 2: "\<lfloor>x * 1000 + 1 / 2\<rfloor> \<le> b" by simp
  show "of_int a / 1000 \<le> toFixed3 x"
    using 1 assms(1) by (simp add: toFixed3_def divide_right_mono)
  show "toFixed3 x \<le> of_int b / 1000"
    using 2 assms(1) by (simp add: toFixed3_def divide_right_mono)
qed

text \<open>Rounding keeps a value inside a band whose ends are multiples of 0.001.\<close>

lemma toFixed3_band:
  assumes "lo \<le> x" "x \<le> hi" "0 \<le> lo"
    and "lo = real_of_int a / 1000" "hi = real_of_int b / 1000"
  shows "lo \<le> toFixed3 x \<and> toFixed3 x \<le> hi"
proof -
  have "0 \<le> x" using assms by linarith
  from toFixed3_bounds[OF this, of a b] assms show ?thesis by simp
qed

lemma confidenceLevel_of_cases:
  "confidenceLevel_of c =
     (if c \<ge> 0.8 then confidenceLevels ! 0 else if c \<ge> 0.6 then confidenceLevels ! 1
      else if c \<ge> 0.4 then confidenceLevels ! 2 else if c \<ge> 0.2 then confidenceLevels ! 3
      else confidenceLevels ! 4)"
  by (simp add: confidenceLevel_of_def confidenceLevels_def)

lemma band:
  fixes r :: real
  assumes "0 \<le> r" "r < 1" "0 \<le> w"
  shows "lo \<le> lo + r * w" "lo + r * w \<le> lo + w"
proof -
  show "lo \<le> lo + r * w" using assms by simp
  have "r * w \<le> 1 * w" using assms by (intro mult_right_mono) auto
  then show "lo + r * w \<le> lo + w" by simp
qed

lemma predict_branch_draw:
  "predict_branch f s =
     (let r = fst s (snd s); s1 = (fst s, Suc (snd s)) in
      if ndvi f > 0.8 then
        (if evi f > 0.9 then (Foret, 0.85 + r * 0.1, s1)
         else (Palmier_a_huile, 0.75 + r * 0.15, s1))
      else if ndvi f > 0.6 then
        (if savi f > 0.7 then (Palmier_a_huile, 0.70 + r * 0.2, s1)
         else (Cacao, 0.65 + r * 0.25, s1))
      else (Cacao, 0.45 + r * 0.3, s1))"
  by (simp add: predict_branch_def Math_random_def Let_def)

lemma predict_class_confidence:
  "predicted_class (fst (predict f s)) = fst (predict_branch f s)"
  "confidence (fst (predict f s)) = toFixed3 (fst (snd (predict_branch f s)))"
  "confidence_level (fst (predict f s)) =
     level (confidenceLevel_of (fst (snd (predict_branch f s))))"
  by (simp_all add: predict_def Let_def split_def)

text \<open>The class and the band of the confidence as drawn, before it is rounded.\<close>

lemma predict_branch_policy:
  assumes "unit_draws s"
  shows "ndvi f > 0.8 \<and> evi f > 0.9 \<longrightarrow>
            fst (predict_branch f s) = Foret
          \<and> 0.85 \<le> fst (snd (predict_branch f s)) \<and> fst (snd (predict_branch f s)) \<le> 0.95"
    and "ndvi f > 0.8 \<and> evi f \<le> 0.9 \<longrightarrow>
            fst (predict_branch f s) = Palmier_a_huile
          \<and> 0.75 \<le> fst (snd (predict_branch f s)) \<and> fst (snd (predict_branch f s)) \<le> 0.90"
    and "0.6 < ndvi f \<and> ndvi f \<le> 0.8 \<and> savi f > 0.7 \<longrightarrow>
            fst (predict_branch f s) = Palmier_a_huile
          \<and> 0.70 \<le> fst (snd (predict_branch f s)) \<and> fst (snd (predict_branch f s)) \<le> 0.90"
    and "0.6 < ndvi f \<and> ndvi f \<le> 0.8 \<and> savi f \<le> 0.7 \<longrightarrow>
            fst (predict_branch f s) = Cacao
          \<and> 0.65 \<le> fst (snd (predict_branch f s)) \<and> fst (snd (predict_branch f s)) \<le> 0.90"
    and "ndvi f \<le> 0.6 \<longrightarrow>
            fst (predict_branch f s) = Cacao
          \<and> 0.45 \<le> fst (snd (predict_branch f s)) \<and> fst (snd (predict_branch f s)) \<le> 0.75"
proof -
  let ?r = "fst s (snd s)"
  have r: "0 \<le> ?r" "?r < 1" using assms by (simp_all add: unit_draws_def)
  note b = band[OF r]
  show "ndvi f > 0.8 \<and> evi f > 0.9 \<longrightarrow>
            fst (predict_branch f s) = Foret
          \<and> 0.85 \<le> fst (snd (predict_branch f s)) \<and> fst (snd (predict_branch f s)) \<le> 0.95"
    using b[of "0.1" "0.85"] by (simp add: predict_branch_draw Let_def)
  show "ndvi f > 0.8 \<and> evi f \<le> 0.9 \<longrightarrow>
            fst (predict_branch f s) = Palmier_a_huile
          \<and> 0.75 \<le> fst (snd (predict_branch f s)) \<and> fst (snd (predict_branch f s)) \<le> 0.90"
    using b[of "0.15" "0.75"] by (simp add: predict_branch_draw Let_def)
  show "0.6 < ndvi f \<and> ndvi f \<le> 0.8 \<and> savi f > 0.7 \<longrightarrow>
            fst (predict_branch f s) = Palmier_a_huile
          \<and> 0.70 \<le> fst (snd (predict_branch f s)) \<and> fst (snd (predict_branch f s)) \<le> 0.90"
    using b[of "0.2" "0.70"] by (simp add: predict_branch_draw Let_def)
  show "0.6 < ndvi f \<and> ndvi f \<le> 0.8 \<and> savi f \<le> 0.7 \<longrightarrow>
            fst (predict_branch f s) = Cacao
          \<and> 0.65 \<le> fst (snd (predict_branch f s)) \<and> fst (snd (predict_branch f s)) \<le> 0.90"
    using b[of "0.25" "0.65"] by (simp add: predict_branch_draw Let_def)
  show "ndvi f \<le> 0.6 \<longrightarrow>
            fst (predict_branch f s) = Cacao
          \<and> 0.45 \<le> fst (snd (predict_branch f s)) \<and> fst (snd (predict_branch f s)) \<le> 0.75"
    using b[of "0.3" "0.45"] by (simp add: predict_branch_draw Let_def)
qed

subsection \<open>The decision policy\<close>

text \<open>
  Claim C1. For every feature vector, and every generator whose draws lie in \<open>[0, 1)\<close>,
  \<open>predict\<close> follows the three-branch policy. With \<open>ndvi > 0.8\<close>: the class is
  \<open>Foret\<close> with a confidence in \<open>[0.85, 0.95]\<close> when \<open>evi > 0.9\<close>, and
  \<open>Palmier a huile\<close> with a confidence in \<open>[0.75, 0.90]\<close> otherwise. With
  \<open>0.6 < ndvi \<le> 0.8\<close>: \<open>Palmier a huile\<close> in \<open>[0.70, 0.90]\<close> when \<open>savi > 0.7\<close>,
  and \<open>Cacao\<close> in \<open>[0.65, 0.90]\<close> otherwise. With \<open>ndvi \<le> 0.6\<close>: \<open>Cacao\<close> in
  \<open>[0.45, 0.75]\<close>. The confidence is the field of the returned object, rounded to
  three decimals.
\<close>

theorem predict_decision_policy:
  assumes "unit_draws s"
  shows "(ndvi f > 0.8 \<and> evi f > 0.9 \<longrightarrow>
            predicted_class (fst (predict f s)) = Foret
          \<and> 0.85 \<le> confidence (fst (predict f s)) \<and> confidence (fst (predict f s)) \<le> 0.95)
       \<and> (ndvi f > 0.8 \<and> evi f \<le> 0.9 \<longrightarrow>
            predicted_class (fst (predict f s)) = Palmier_a_huile
          \<and> 0.75 \<le> confidence (fst (predict f s)) \<and> confidence (fst (predict f s)) \<le> 0.90)
       \<and> (0.6 < ndvi f \<and> ndvi f \<le> 0.8 \<and> savi f > 0.7 \<longrightarrow>
            predicted_class (fst (predict f s)) = Palmier_a_huile
          \<and> 0.70 \<le> confidence (fst (predict f s)) \<and> confidence (fst (predict f s)) \<le> 0.90)
       \<and> (0.6 < ndvi f \<and> ndvi f \<le> 0.8 \<and> savi f \<le> 0.7 \<longrightarrow>
            predicted_class (fst (predict f s)) = Cacao
          \<and> 0.65 \<le> confidence (fst (predict f s)) \<and> confidence (fst (predict f s)) \<le> 0.90)
       \<and> (ndvi f \<le> 0.6 \<longrightarrow>
            predicted_class (fst (predict f s)) = Cacao
          \<and> 0.45 \<le> confidence (fst (predict f s)) \<and> confidence (fst (predict f s)) \<le> 0.75)"
proof -
  let ?c = "fst (snd (predict_branch f s))"
  note p = predict_branch_policy[OF assms, of f]
  have 1: "0.85 \<le> ?c \<and> ?c \<le> 0.95 \<Longrightarrow> 0.85 \<le> toFixed3 ?c \<and> toFixed3 ?c \<le> 0.95"
    by (intro toFixed3_band[of _ _ _ 850 950]) simp_all
  have 2: "0.75 \<le> ?c \<and> ?c \<le> 0.90 \<Longrightarrow> 0.75 \<le> toFixed3 ?c \<and> toFixed3 ?c \<le> 0.90"
    by (intro toFixed3_band[of _ _ _ 750 900]) simp_all
  have 3: "0.70 \<le> ?c \<and> ?c \<le> 0.90 \<Longrightarrow> 0.70 \<le> toFixed3 ?c \<and> toFixed3 ?c \<le> 0.90"
    by (intro toFixed3_band[of _ _ _ 700 900]) simp_all
  have 4: "0.65 \<le> ?c \<and> ?c \<le> 0.90 \<Longrightarrow> 0.65 \<le> toFixed3 ?c \<and> toFixed3 ?c \<le> 0.90"
    by (intro toFixed3_band[of _ _ _ 650 900]) simp_all
  have 5: "0.45 \<le> ?c \<and> ?c \<le> 0.75 \<Longrightarrow> 0.45 \<le> toFixed3 ?c \<and> toFixed3 ?c \<le> 0.75"
    by (intro toFixed3_band[of _ _ _ 450 750]) simp_all
  show ?thesis
    unfolding predict_class_confidence
    using p(1) 1 p(2) 2 p(3) 3 p(4) 4 p(5) 5 by blast
qed

theorem predict_decision_policy_witness:
  "unit_draws (constant_draws 0.5)
   \<and> predicted_class (fst (predict (vegetation 0.85 0.95 0.8) (constant_draws 0.5))) = Foret
   \<and> confidence (fst (predict (vegetation 0.85 0.95 0.8) (constant_draws 0.5))) = 0.9
   \<and> predicted_class (fst (predict (vegetation 0.85 0.9 0.8) (constant_draws 0.5))) = Palmier_a_huile
   \<and> confidence (fst (predict (vegetation 0.85 0.9 0.8) (constant_draws 0.5))) = 0.825
   \<and> predicted_class (fst (predict (vegetation 0.8 0.95 0.75) (constant_draws 0.5))) = Palmier_a_huile
   \<and> confidence (fst (predict (vegetation 0.8 0.95 0.75) (constant_draws 0.5))) = 0.8
   \<and> predicted_class (fst (predict (vegetation 0.7 0.8 0.7) (constant_draws 0.5))) = Cacao
   \<and> confidence (fst (predict (vegetation 0.7 0.8 0.7) (constant_draws 0.5))) = 0.775
   \<and> predicted_class (fst (predict (vegetation 0.6 0.95 0.8) (constant_draws 0.5))) = Cacao
   \<and> confidence (fst (predict (vegetation 0.6 0.95 0.8) (constant_draws 0.5))) = 0.6"
proof -
  have u: "unit_draws (constant_draws 0.5)" by (simp add: unit_draws_constant)
  have c: "confidence (fst (predict (vegetation 0.85 0.95 0.8) (constant_draws 0.5))) = 0.9"
    "confidence (fst (predict (vegetation 0.85 0.9 0.8) (constant_draws 0.5))) = 0.825"
    "confidence (fst (predict (vegetation 0.8 0.95 0.75) (constant_draws 0.5))) = 0.8"
    "confidence (fst (predict (vegetation 0.7 0.8 0.7) (constant_draws 0.5))) = 0.775"
    "confidence (fst (predict (vegetation 0.6 0.95 0.8) (constant_draws 0.5))) = 0.6"
    by code_simp+
  show ?thesis
    using u c
      predict_decision_policy[OF u, of "vegetation 0.85 0.95 0.8"]
      predict_decision_policy[OF u, of "vegetation 0.85 0.9 0.8"]
      predict_decision_policy[OF u, of "vegetation 0.8 0.95 0.75"]
      predict_decision_policy[OF u, of "vegetation 0.7 0.8 0.7"]
      predict_decision_policy[OF u, of "vegetation 0.6 0.95 0.8"]
    by (simp add: vegetation_def)
qed

subsection \<open>The confidence tiers\<close>

text \<open>
  Claim C2. For every confidence \<open>c\<close> in \<open>[0, 1]\<close>, the tiers are scanned in the order
  of the table, whose thresholds are 0.8, 0.6, 0.4, 0.2, 0.0, and the result is the first
  tier whose threshold is at most \<open>c\<close>: it is one tier of the table, its threshold is
  at most \<open>c\<close>, and no tier with a strictly higher threshold has a threshold at most
  \<open>c\<close>.
\<close>

theorem confidence_tier_highest_qualifying:
  assumes "0 \<le> c" "c \<le> 1"
  shows "map threshold confidenceLevels = [0.8, 0.6, 0.4, 0.2, 0.0]
     \<and> find (\<lambda>l. threshold l \<le> c) confidenceLevels = Some (confidenceLevel_of c)
     \<and> confidenceLevel_of c \<in> set confidenceLevels
     \<and> threshold (confidenceLevel_of c) \<le> c
     \<and> (\<forall>u \<in> set confidenceLevels.
           threshold (confidenceLevel_of c) < threshold u \<longrightarrow> \<not> threshold u \<le> c)"
  using assms by (simp add: confidenceLevel_of_def confidenceLevels_def)

theorem confidence_tier_highest_qualifying_witness:
  "(0::real) \<le> 0.6 \<and> (0.6::real) \<le> 1
   \<and> level (confidenceLevel_of 0.6) = 4 \<and> threshold (confidenceLevel_of 0.6) = 0.6
   \<and> find (\<lambda>l. threshold l \<le> 0.6) confidenceLevels = Some (confidenceLevel_of 0.6)
   \<and> confidenceLevel_of 0.6 \<in> set confidenceLevels
   \<and> threshold (confidenceLevel_of 0.6) \<le> 0.6"
proof -
  have h: "(0::real) \<le> 0.6" "(0.6::real) \<le> 1" by simp_all
  have l: "level (confidenceLevel_of 0.6) = 4" "threshold (confidenceLevel_of 0.6) = 0.6"
    by (simp_all add: confidenceLevel_of_cases confidenceLevels_def)
  show ?thesis using h l confidence_tier_highest_qualifying[OF h] by simp
qed

subsection \<open>The range of the confidence\<close>

lemma raw_confidence_range:
  assumes "unit_draws s"
  shows "0.45 \<le> fst (snd (predict_branch f s)) \<and> fst (snd (predict_branch f s)) \<le> 0.95"
proof -
  let ?r = "fst s (snd s)"
  have r: "0 \<le> ?r" "?r < 1" using assms by (simp_all add: unit_draws_def)
  note b = band[OF r]
  show ?thesis
    using b[of "0.1" "0.85"] b[of "0.15" "0.75"] b[of "0.2" "0.70"] b[of "0.25" "0.65"] b[of "0.3" "0.45"]
    by (simp add: predict_branch_draw Let_def)
qed

text \<open>
  Claim C9. For every feature vector and every generator whose draws lie in \<open>[0, 1)\<close>,
  the confidence returned by \<open>predict\<close> lies in \<open>[0.45, 0.95]\<close>, and the confidence
  level is 3, 4 or 5: levels 1 and 2 are never assigned.
\<close>

theorem confidence_within_bands:
  assumes "unit_draws s"
  shows "0.45 \<le> confidence (fst (predict f s)) \<and> confidence (fst (predict f s)) \<le> 0.95
       \<and> confidence_level (fst (predict f s)) \<in> {3, 4, 5}
       \<and> confidence_level (fst (predict f s)) \<noteq> 1 \<and> confidence_level (fst (predict f s)) \<noteq> 2"
proof -
  let ?c = "fst (snd (predict_branch f s))"
  have c: "0.45 \<le> ?c \<and> ?c \<le> 0.95" by (rule raw_confidence_range[OF assms])
  then have "0.45 \<le> toFixed3 ?c \<and> toFixed3 ?c \<le> 0.95"
    by (intro toFixed3_band[of _ _ _ 450 950]) simp_all
  moreover have "level (confidenceLevel_of ?c) \<in> {3, 4, 5}"
    using c by (simp add: confidenceLevel_of_cases confidenceLevels_def)
  ultimately show ?thesis by (auto simp add: predict_class_confidence)
qed

theorem confidence_within_bands_witness:
  "unit_draws (constant_draws 0)
   \<and> confidence (fst (predict (vegetation 0.5 0.5 0.5) (constant_draws 0))) = 0.45
   \<and> confidence_level (fst (predict (vegetation 0.5 0.5 0.5) (constant_draws 0))) = 3
   \<and> confidence_level (fst (predict (vegetation 0.5 0.5 0.5) (constant_draws 0))) \<in> {3, 4, 5}"
proof -
  have u: "unit_draws (constant_draws 0)" by (simp add: unit_draws_constant)
  have c: "confidence (fst (predict (vegetation 0.5 0.5 0.5) (constant_draws 0))) = 0.45"
    "confidence_level (fst (predict (vegetation 0.5 0.5 0.5) (constant_draws 0))) = 3"
    by code_simp+
  show ?thesis using u c confidence_within_bands[OF u, of "vegetation 0.5 0.5 0.5"] by simp
qed

subsection \<open>The probability of the predicted class\<close>

lemma toFixed3_error: "\<bar>toFixed3 x - x\<bar> \<le> 0.0005"
proof -
  have *: "\<bar>of_int \<lfloor>y * 1000 + 1 / 2\<rfloor> / 1000 - y\<bar> \<le> 0.0005" for y :: real
  proof -
    define n where "n = \<lfloor>y * 1000 + 1 / 2\<rfloor>"
    have h: "of_int n \<le> y * 1000 + 1 / 2" "y * 1000 + 1 / 2 < of_int n + 1"
      unfolding n_def by linarith+
    have a: "of_int n / 1000 - y \<le> 1 / 2000" using h(1) by linarith
    have b: "- (of_int n / 1000 - y) \<le> 1 / 2000" using h(2) by linarith
    have "\<bar>of_int n / 1000 - y\<bar> \<le> 1 / 2000" by (rule abs_leI[OF a b])
    then show ?thesis by (simp add: n_def)
  qed
  show ?thesis
  proof (cases "x < 0")
    case True
    have "toFixed3 x - x = - (of_int \<lfloor>(- x) * 1000 + 1 / 2\<rfloor> / 1000 - (- x))"
      using True by (simp add: toFixed3_def)
    then show ?thesis using *[of "- x"] by (simp only: abs_minus_cancel)
  next
    case False
    then show ?thesis using *[of x] by (simp add: toFixed3_def)
  qed
qed


lemma predict_branch_class:
  "fst (predict_branch f s) = Palmier_a_huile \<or> fst (predict_branch f s) = Cacao
   \<or> fst (predict_branch f s) = Foret"
  by (simp add: predict_branch_draw Let_def)




subsection \<open>Feature vectors outside the declared domain\<close>

text \<open>
  Claim C8, as the code has it. \<open>predict\<close> checks no domain: for every feature vector
  outside the declared domain (and draws in \<open>[0, 1)\<close>) it returns a prediction, whose
  class is the one the three-branch policy gives, one of the three classes, with a
  confidence in \<open>[0.45, 0.95]\<close> and a level among 3, 4, 5.
\<close>

theorem predict_without_domain_check:
  assumes "\<not> spec_feature_domain f" "unit_draws s"
  shows "predicted_class (fst (predict f s)) =
           (if ndvi f > 0.8 then (if evi f > 0.9 then Foret else Palmier_a_huile)
            else if ndvi f > 0.6 then (if savi f > 0.7 then Palmier_a_huile else Cacao)
            else Cacao)
       \<and> predicted_class (fst (predict f s)) \<in> set classes
       \<and> 0.45 \<le> confidence (fst (predict f s)) \<and> confidence (fst (predict f s)) \<le> 0.95
       \<and> confidence_level (fst (predict f s)) \<in> {3, 4, 5}"
proof -
  let ?c = "fst (snd (predict_branch f s))"
  have c: "0.45 \<le> ?c \<and> ?c \<le> 0.95" by (rule raw_confidence_range[OF assms(2)])
  then have "0.45 \<le> toFixed3 ?c \<and> toFixed3 ?c \<le> 0.95"
    by (intro toFixed3_band[of _ _ _ 450 950]) simp_all
  moreover have "level (confidenceLevel_of ?c) \<in> {3, 4, 5}"
    using c by (simp add: confidenceLevel_of_cases confidenceLevels_def)
  moreover have "fst (predict_branch f s) =
           (if ndvi f > 0.8 then (if evi f > 0.9 then Foret else Palmier_a_huile)
            else if ndvi f > 0.6 then (if savi f > 0.7 then Palmier_a_huile else Cacao)
            else Cacao)"
    by (simp add: predict_branch_draw Let_def)
  moreover have "fst (predict_branch f s) \<in> set classes"
    using predict_branch_class[of f s] by (auto simp add: classes_def)
  ultimately show ?thesis by (simp only: predict_class_confidence) 
qed


theorem predict_without_domain_check_witness:
  "\<not> spec_feature_domain (vegetation 2 (- 3) 0) \<and> unit_draws (constant_draws 0.5)
   \<and> predicted_class (fst (predict (vegetation 2 (- 3) 0) (constant_draws 0.5))) = Palmier_a_huile
   \<and> predicted_class (fst (predict (vegetation 2 (- 3) 0) (constant_draws 0.5))) \<in> set classes
   \<and> 0.45 \<le> confidence (fst (predict (vegetation 2 (- 3) 0) (constant_draws 0.5)))
   \<and> confidence (fst (predict (vegetation 2 (- 3) 0) (constant_draws 0.5))) \<le> 0.95
   \<and> confidence_level (fst (predict (vegetation 2 (- 3) 0) (constant_draws 0.5))) \<in> {3, 4, 5}"
proof -
  have d: "\<not> spec_feature_domain (vegetation 2 (- 3) 0)"
    by (simp add: spec_feature_domain_def vegetation_def)
  have u: "unit_draws (constant_draws 0.5)" by (simp add: unit_draws_constant)
  have p: "predicted_class (fst (predict (vegetation 2 (- 3) 0) (constant_draws 0.5)))
             = Palmier_a_huile"
    by code_simp
  show ?thesis
    using d u p predict_without_domain_check[OF d u] by simp
qed

text \<open>
  Claim C8 as stated (a vector with a feature outside its domain makes \<open>predict\<close> fail)
  fails for the vector with \<open>ndvi = 2\<close>, \<open>evi = -3\<close>, \<open>savi = 0\<close>: it is outside the
  declared domain and \<open>predict\<close> returns \<open>Palmier a huile\<close> with confidence 0.825 and
  level 5.
\<close>

theorem invalid_feature_counterexample:
  "\<not> spec_feature_domain (vegetation 2 (- 3) 0)
   \<and> predicted_class (fst (predict (vegetation 2 (- 3) 0) (constant_draws 0.5))) = Palmier_a_huile
   \<and> confidence (fst (predict (vegetation 2 (- 3) 0) (constant_draws 0.5))) = 0.825
   \<and> confidence_level (fst (predict (vegetation 2 (- 3) 0) (constant_draws 0.5))) = 5"
  by code_simp

subsection \<open>Feature vectors produced by extractFeatures\<close>


lemma toFixed3_gt:
  assumes "0 \<le> x" "of_int a / 1000 < toFixed3 x"
  shows "(of_int a + 1 / 2) / 1000 \<le> x"
proof -
  define n where "n = \<lfloor>x * 1000 + 1 / 2\<rfloor>"
  have "of_int a / 1000 < of_int n / (1000::real)"
    using assms by (simp add: toFixed3_def n_def)
  then have "a < n" by simp
  then have "of_int a + 1 \<le> (of_int n :: real)" by linarith
  moreover have "of_int n \<le> x * 1000 + 1 / 2" unfolding n_def by linarith
  ultimately show ?thesis by (simp add: field_simps)
qed

text \<open>Two roundings: of a multiple of a number, and of the number itself.\<close>

lemma scaled_error_evi:
  fixes x y n :: real
  assumes "\<bar>x - n * 1.2\<bar> \<le> 0.0005" "\<bar>y - n\<bar> \<le> 0.0005"
  shows "\<bar>x - 1.2 * y\<bar> \<le> 0.0011"
proof -
  have "\<bar>x - (6 / 5) * y\<bar> \<le> 11 / 10000"
    if "\<bar>x - n * (6 / 5)\<bar> \<le> 1 / 2000" "\<bar>y - n\<bar> \<le> 1 / 2000"
    using that by linarith
  then show ?thesis using assms by simp
qed

lemma scaled_error_savi:
  fixes x y n :: real
  assumes "\<bar>x - n * 0.9\<bar> \<le> 0.0005" "\<bar>y - n\<bar> \<le> 0.0005"
  shows "\<bar>x - 0.9 * y\<bar> \<le> 0.00095"
proof -
  have "\<bar>x - (9 / 10) * y\<bar> \<le> 19 / 20000"
    if "\<bar>x - n * (9 / 10)\<bar> \<le> 1 / 2000" "\<bar>y - n\<bar> \<le> 1 / 2000"
    using that by linarith
  then show ?thesis using assms by simp
qed

lemma extractFeatures_indices:
  "ndvi (fst (extractFeatures s)) = toFixed3 (fst (calculateNDVI s))"
  "evi (fst (extractFeatures s)) = toFixed3 (fst (calculateNDVI s) * 1.2)"
  "savi (fst (extractFeatures s)) = toFixed3 (fst (calculateNDVI s) * 0.9)"
  by (simp_all add: extractFeatures_def Let_def split_def)

lemma calculateNDVI_range:
  assumes "unit_draws s"
  shows "0.65 \<le> fst (calculateNDVI s)" "fst (calculateNDVI s) \<le> 0.95"
proof -
  have r: "0 \<le> fst s (snd s)" "fst s (snd s) < 1" using assms by (simp_all add: unit_draws_def)
  have v: "fst (calculateNDVI s) = 0.65 + fst s (snd s) * 0.3"
    by (simp add: calculateNDVI_def Math_random_def Let_def)
  show "0.65 \<le> fst (calculateNDVI s)" "fst (calculateNDVI s) \<le> 0.95"
    using band[OF r, of "0.3" "0.65"] by (simp_all add: v)
qed

lemma predicted_class_policy:
  "predicted_class (fst (predict f s)) =
     (if ndvi f > 0.8 then (if evi f > 0.9 then Foret else Palmier_a_huile)
      else if ndvi f > 0.6 then (if savi f > 0.7 then Palmier_a_huile else Cacao)
      else Cacao)"
  by (simp add: predict_class_confidence predict_branch_draw Let_def)

text \<open>
  Claim C10. For every generator whose draws lie in \<open>[0, 1)\<close>, the vector produced by
  \<open>extractFeatures\<close> has its \<open>ndvi\<close>, \<open>evi\<close> and \<open>savi\<close> equal to the computed
  NDVI, 1.2 times it and 0.9 times it, each rounded to three decimals (so \<open>evi\<close> and
  \<open>savi\<close> are 1.2 and 0.9 times the \<open>ndvi\<close> field up to that rounding); \<open>ndvi\<close> lies in
  \<open>[0.65, 0.95]\<close>, so \<open>ndvi \<le> 0.6\<close> never holds; and whenever \<open>ndvi > 0.8\<close> then
  \<open>evi > 0.9\<close> and \<open>predict\<close> returns the forest class, whatever it draws.
\<close>

theorem extracted_features_branches:
  assumes "unit_draws s"
  shows "ndvi (fst (extractFeatures s)) = toFixed3 (fst (calculateNDVI s))
       \<and> evi (fst (extractFeatures s)) = toFixed3 (fst (calculateNDVI s) * 1.2)
       \<and> savi (fst (extractFeatures s)) = toFixed3 (fst (calculateNDVI s) * 0.9)
       \<and> \<bar>evi (fst (extractFeatures s)) - 1.2 * ndvi (fst (extractFeatures s))\<bar> \<le> 0.0011
       \<and> \<bar>savi (fst (extractFeatures s)) - 0.9 * ndvi (fst (extractFeatures s))\<bar> \<le> 0.00095
       \<and> 0.65 \<le> ndvi (fst (extractFeatures s)) \<and> ndvi (fst (extractFeatures s)) \<le> 0.95
       \<and> \<not> ndvi (fst (extractFeatures s)) \<le> 0.6
       \<and> (ndvi (fst (extractFeatures s)) > 0.8 \<longrightarrow>
             evi (fst (extractFeatures s)) > 0.9
           \<and> predicted_class (fst (predict (fst (extractFeatures s)) s')) = Foret)"
proof -
  let ?n = "fst (calculateNDVI s)"
  let ?f = "fst (extractFeatures s)"
  note n = calculateNDVI_range[OF assms]
  have nd: "0.65 \<le> toFixed3 ?n \<and> toFixed3 ?n \<le> 0.95"
    using n by (intro toFixed3_band[of _ _ _ 650 950]) simp_all
  have ev: "0.9 < toFixed3 (?n * 1.2)" if "0.8 < toFixed3 ?n"
  proof -
    have "0 \<le> ?n" using n(1) by simp
    from toFixed3_gt[OF this, of 800] that have "0.8005 \<le> ?n" by simp
    then have "real_of_int 960 / 1000 \<le> ?n * 1.2" "0 \<le> ?n * 1.2" by simp_all
    moreover have "?n * 1.2 \<le> real_of_int 1140 / 1000" using n(2) by simp
    ultimately have "real_of_int 960 / 1000 \<le> toFixed3 (?n * 1.2)"
      by (intro toFixed3_bounds(1)[of _ _ 1140])
    then show ?thesis by simp
  qed
  have pr: "predicted_class (fst (predict ?f s')) = Foret" if "0.8 < toFixed3 ?n"
    using that ev[OF that] by (simp add: predicted_class_policy extractFeatures_indices)
  have e1: "\<bar>toFixed3 (?n * 1.2) - 1.2 * toFixed3 ?n\<bar> \<le> 0.0011"
    by (rule scaled_error_evi[OF toFixed3_error toFixed3_error])
  have e2: "\<bar>toFixed3 (?n * 0.9) - 0.9 * toFixed3 ?n\<bar> \<le> 0.00095"
    by (rule scaled_error_savi[OF toFixed3_error toFixed3_error])
  show ?thesis
    using nd ev pr e1 e2 by (simp add: extractFeatures_indices)
qed

theorem extracted_features_branches_witness:
  "unit_draws (constant_draws 0.9)
   \<and> ndvi (fst (extractFeatures (constant_draws 0.9))) = 0.92
   \<and> evi (fst (extractFeatures (constant_draws 0.9))) = 1.104
   \<and> savi (fst (extractFeatures (constant_draws 0.9))) = 0.828
   \<and> ndvi (fst (extractFeatures (constant_draws 0.9))) > 0.8
   \<and> evi (fst (extractFeatures (constant_draws 0.9))) > 0.9
   \<and> predicted_class (fst (predict (fst (extractFeatures (constant_draws 0.9)))
         (snd (extractFeatures (constant_draws 0.9))))) = Foret"
proof -
  have u: "unit_draws (constant_draws 0.9)" by (simp add: unit_draws_constant)
  have v: "ndvi (fst (extractFeatures (constant_draws 0.9))) = 0.92"
    "evi (fst (extractFeatures (constant_draws 0.9))) = 1.104"
    "savi (fst (extractFeatures (constant_draws 0.9))) = 0.828"
    by code_simp+
  show ?thesis
    using u v extracted_features_branches[OF u, of "snd (extractFeatures (constant_draws 0.9))"]
    by simp
qed

section \<open>Properties of the export\<close>

subsection \<open>The handler\<close>



lemma read_entry_entry_of: "read_entry (entry_of r) = Inr r"
  by (simp add: read_entry_def read_prediction_def read_features_def read_metadata_def
      entry_of_def)

lemma map_err_entry_of: "map_err read_entry (map entry_of rs) = Inr rs"
  by (induction rs) (simp_all add: read_entry_entry_of)





subsection \<open>The CSV text\<close>

lemma foldl_append_lines:
  "foldl (\<lambda>csv (index, result). csv @ g index result) acc (enumerate n rs)
     = acc @ concat (map (\<lambda>(index, result). g index result) (enumerate n rs))"
  by (induction rs arbitrary: acc n) simp_all

lemma map_enumerate_nth:
  "map (\<lambda>(index, result). g index result) (enumerate 0 rs)
     = map (\<lambda>i. g i (rs ! i)) [0..<length rs]"
  by (rule nth_equalityI) (simp_all add: nth_enumerate_eq)

lemma generateCSV_lines:
  "generateCSV num_str rs =
     join '','' headers @ [CHR 0x0A]
     @ concat (map (\<lambda>i. join '','' (map (to_string num_str) (csv_row i (rs ! i))) @ [CHR 0x0A])
                   [0..<length rs])"
  unfolding generateCSV_def foldl_append_lines map_enumerate_nth by simp

text \<open>
  Claim C5, as the code has it. For every list of \<open>N\<close> results the CSV text is the line
  of the 12 fixed column names (\<open>ID\<close>, \<open>Culture_Predite\<close>, \<open>Confiance\<close>,
  \<open>Niveau_Confiance\<close>, \<open>Action_Recommandee\<close>, \<open>NDVI\<close>, \<open>EVI\<close>, \<open>SAVI\<close>,
  \<open>Surface_Ha\<close>, \<open>Latitude\<close>, \<open>Longitude\<close>, \<open>Timestamp\<close>) followed by exactly
  \<open>N\<close> lines, the line of result \<open>i\<close> (counted from 0) being its 12 cells joined by
  commas: the first cell is the number \<open>i + 1\<close>, the predicted class and the recommended
  action are put between double quotes, the time stamp is written as it is, without
  quotes, and a missing latitude or longitude gives the empty string.
\<close>

theorem generateCSV_header_and_rows:
  "headers = [''ID'', ''Culture_Predite'', ''Confiance'', ''Niveau_Confiance'',
              ''Action_Recommandee'', ''NDVI'', ''EVI'', ''SAVI'', ''Surface_Ha'', ''Latitude'',
              ''Longitude'', ''Timestamp'']
   \<and> length headers = 12
   \<and> generateCSV num_str rs =
       join '','' headers @ [CHR 0x0A]
       @ concat (map (\<lambda>i. join '','' (map (to_string num_str) (csv_row i (rs ! i))) @ [CHR 0x0A])
                     [0..<length rs])
   \<and> length (map (\<lambda>i. csv_row i (rs ! i)) [0..<length rs]) = length rs
   \<and> (\<forall>i < length rs.
         length (csv_row i (rs ! i)) = 12
       \<and> csv_row i (rs ! i) ! 0 = JNum (of_nat (i + 1))
       \<and> csv_row i (rs ! i) ! 1
           = JStr ([CHR 0x22] @ predicted_class (prediction (rs ! i)) @ [CHR 0x22])
       \<and> csv_row i (rs ! i) ! 4
           = JStr ([CHR 0x22] @ recommended_action (prediction (rs ! i)) @ [CHR 0x22])
       \<and> csv_row i (rs ! i) ! 11 = JStr (timestamp (metadata (rs ! i)))
       \<and> (coord_lat (rs ! i) = None \<longrightarrow> csv_row i (rs ! i) ! 9 = JStr [])
       \<and> (coord_lng (rs ! i) = None \<longrightarrow> csv_row i (rs ! i) ! 10 = JStr []))"
proof -
  have "headers = [''ID'', ''Culture_Predite'', ''Confiance'', ''Niveau_Confiance'',
              ''Action_Recommandee'', ''NDVI'', ''EVI'', ''SAVI'', ''Surface_Ha'', ''Latitude'',
              ''Longitude'', ''Timestamp'']" "length headers = 12"
    by (simp_all add: headers_def)
  moreover have "length (csv_row i r) = 12
       \<and> csv_row i r ! 0 = JNum (of_nat (i + 1))
       \<and> csv_row i r ! 1 = JStr ([CHR 0x22] @ predicted_class (prediction r) @ [CHR 0x22])
       \<and> csv_row i r ! 4 = JStr ([CHR 0x22] @ recommended_action (prediction r) @ [CHR 0x22])
       \<and> csv_row i r ! 11 = JStr (timestamp (metadata r))
       \<and> (coord_lat r = None \<longrightarrow> csv_row i r ! 9 = JStr [])
       \<and> (coord_lng r = None \<longrightarrow> csv_row i r ! 10 = JStr [])" for i r
    by (simp add: csv_row_def or_default_def)
  ultimately show ?thesis
    using generateCSV_lines[of num_str rs] by simp
qed


theorem generateCSV_header_and_rows_witness:
  "generateCSV (\<lambda>x. ''n'') [sample_result ''t1'' None]
     = ''ID,Culture_Predite,Confiance,Niveau_Confiance,Action_Recommandee,NDVI,EVI,SAVI,Surface_Ha,Latitude,Longitude,Timestamp''
       @ [CHR 0x0A]
       @ ''n,'' @ [CHR 0x22] @ Foret @ [CHR 0x22] @ '',n,n,'' @ [CHR 0x22] @ action (confidenceLevels ! 0) @ [CHR 0x22] @ '',n,n,n,n,,,t1'' @ [CHR 0x0A]
   \<and> coord_lat (sample_result ''t1'' None) = None
   \<and> csv_row 0 (sample_result ''t1'' None) ! 9 = JStr []
   \<and> coord_lng (sample_result ''t1'' None) = None
   \<and> csv_row 0 (sample_result ''t1'' None) ! 10 = JStr []
   \<and> csv_row 0 (sample_result ''t1'' None) ! 0 = JNum 1"
proof -
  let ?r = "sample_result ''t1'' None"
  have c: "coord_lat ?r = None" "coord_lng ?r = None"
    by (simp_all add: coord_lat_def coord_lng_def sample_result_def)
  have p: "predicted_class (prediction ?r) = Foret"
    "recommended_action (prediction ?r) = action (confidenceLevels ! 0)"
    by code_simp+
  have j: "join '','' (map (to_string (\<lambda>x. ''n'')) (csv_row 0 ?r))
     = ''n,'' @ [CHR 0x22] @ Foret @ [CHR 0x22] @ '',n,n,'' @ [CHR 0x22] @ action (confidenceLevels ! 0) @ [CHR 0x22] @ '',n,n,n,n,,,t1''"
    using p c by (simp add: csv_row_def or_default_def) (simp add: sample_result_def)
  have h: "join '','' headers = ''ID,Culture_Predite,Confiance,Niveau_Confiance,Action_Recommandee,NDVI,EVI,SAVI,Surface_Ha,Latitude,Longitude,Timestamp''"
    by (simp add: headers_def)
  show ?thesis
    using generateCSV_header_and_rows[of "\<lambda>x. ''n''" "[?r]"] c j h
    by simp
qed

text \<open>
  Claim C5 as stated (the columns are named \<open>PredictedClass\<close>, \<open>Confidence\<close>, ... and
  every string field is double-quoted) fails: the header names differ, and for a result
  with the time stamp \<open>2024-05-01T10:00:00.000Z\<close> the last cell of the row is that
  string, which neither starts nor ends with a double quote.
\<close>

theorem csv_quoting_counterexample:
  "headers \<noteq> [''ID'', ''PredictedClass'', ''Confidence'', ''ConfidenceLevel'',
                ''RecommendedAction'', ''NDVI'', ''EVI'', ''SAVI'', ''AreaHa'', ''Latitude'',
                ''Longitude'', ''Timestamp'']
   \<and> csv_row 0 (sample_result ''2024-05-01T10:00:00.000Z'' None) ! 11
       = JStr ''2024-05-01T10:00:00.000Z''
   \<and> hd ''2024-05-01T10:00:00.000Z'' \<noteq> CHR 0x22
   \<and> last ''2024-05-01T10:00:00.000Z'' \<noteq> CHR 0x22"
  by (simp add: headers_def csv_row_def sample_result_def)

subsection \<open>The GeoJSON object\<close>

lemma or_default_zero:
  "or_default v (JNum 0) = JNum (case v of None \<Rightarrow> 0 | Some x \<Rightarrow> x)"
  by (simp add: or_default_def split: option.splits)

text \<open>
  Claim C6. For every list of \<open>N\<close> results the GeoJSON object is a
  \<open>FeatureCollection\<close> whose \<open>features\<close> array has exactly \<open>N\<close> entries; entry
  \<open>i\<close> is a \<open>Feature\<close> with a properties object and a geometry of type \<open>Point\<close>
  whose coordinates are the two numbers longitude, latitude of result \<open>i\<close>, in this
  order, with 0 in place of each absent one.
\<close>

theorem generateGeoJSON_feature_collection:
  "\<exists>fs. generateGeoJSON rs = JObj [(''type'', JStr ''FeatureCollection''), (''features'', JArr fs)]
      \<and> length fs = length rs
      \<and> (\<forall>i < length rs. \<exists>props.
            fs ! i = JObj [(''type'', JStr ''Feature''),
                           (''properties'', JObj props),
                           (''geometry'', JObj
                              [(''type'', JStr ''Point''),
                               (''coordinates'', JArr
                                  [JNum (case coord_lng (rs ! i) of None \<Rightarrow> 0 | Some x \<Rightarrow> x),
                                   JNum (case coord_lat (rs ! i) of None \<Rightarrow> 0 | Some y \<Rightarrow> y)])])])"
  by (simp add: generateGeoJSON_def geo_feature_def nth_enumerate_eq or_default_zero)


theorem generateGeoJSON_feature_collection_witness:
  "\<exists>fs. generateGeoJSON [sample_result ''t1'' None,
                           sample_result ''t2'' (Some \<lparr>lat = Some 5.3, lng = Some (- 4)\<rparr>)]
           = JObj [(''type'', JStr ''FeatureCollection''), (''features'', JArr fs)]
      \<and> length fs = 2
      \<and> (\<exists>props. fs ! 0 = JObj [(''type'', JStr ''Feature''), (''properties'', JObj props),
            (''geometry'', JObj [(''type'', JStr ''Point''),
                                 (''coordinates'', JArr [JNum 0, JNum 0])])])
      \<and> (\<exists>props. fs ! 1 = JObj [(''type'', JStr ''Feature''), (''properties'', JObj props),
            (''geometry'', JObj [(''type'', JStr ''Point''),
                                 (''coordinates'', JArr [JNum (- 4), JNum 5.3])])])"
proof -
  let ?rs = "[sample_result ''t1'' None,
              sample_result ''t2'' (Some \<lparr>lat = Some 5.3, lng = Some (- 4)\<rparr>)]"
  from generateGeoJSON_feature_collection[of ?rs]
  obtain fs where fs: "generateGeoJSON ?rs
        = JObj [(''type'', JStr ''FeatureCollection''), (''features'', JArr fs)]"
      "length fs = length ?rs"
      "\<forall>i < length ?rs. \<exists>props.
            fs ! i = JObj [(''type'', JStr ''Feature''),
                           (''properties'', JObj props),
                           (''geometry'', JObj
                              [(''type'', JStr ''Point''),
                               (''coordinates'', JArr
                                  [JNum (case coord_lng (?rs ! i) of None \<Rightarrow> 0 | Some x \<Rightarrow> x),
                                   JNum (case coord_lat (?rs ! i) of None \<Rightarrow> 0 | Some y \<Rightarrow> y)])])]"
    by blast
  have 0: "\<exists>props. fs ! 0 = JObj [(''type'', JStr ''Feature''), (''properties'', JObj props),
            (''geometry'', JObj [(''type'', JStr ''Point''),
                                 (''coordinates'', JArr [JNum 0, JNum 0])])]"
    using fs(3)[rule_format, of 0] by (simp add: coord_lng_def coord_lat_def sample_result_def)
  have 1: "\<exists>props. fs ! 1 = JObj [(''type'', JStr ''Feature''), (''properties'', JObj props),
            (''geometry'', JObj [(''type'', JStr ''Point''),
                                 (''coordinates'', JArr [JNum (- 4), JNum 5.3])])]"
    using fs(3)[rule_format, of 1] by (simp add: coord_lng_def coord_lat_def sample_result_def)
  show ?thesis using fs(1,2) 0 1 by auto
qed


end
